theory Spec2Isabelle
  imports Main "HOL-Library.Sublist"
begin

section \<open>Project primitives of \<open>prefect/deployments/base.py\<close>\<close>

text \<open>
  The module scaffolds a project directory: it looks upward for the hidden marker
  directory \<open>.prefect\<close>, creates that directory, writes \<open>prefect.yaml\<close> from a recipe,
  and keeps the flow registry \<open>.prefect/flows.json\<close>. The model below follows the
  source function by function. The filesystem is explicit state, every \<open>raise\<close> is a
  value, and every function that touches the disk returns the filesystem it leaves
  behind, also when it fails.
\<close>

subsection \<open>Paths and the filesystem\<close>

text \<open>
  A location on disk is the list of component names from the filesystem root, the way
  \<open>Path.resolve()\<close> returns it: absolute, with neither \<open>.\<close> nor \<open>..\<close> nor symbolic
  links left. The root is the empty list, \<open>path.parent\<close> drops the last component and
  the parent of the root is the root.
\<close>

type_synonym path = "string list"

datatype node = Dir | File string

type_synonym filesystem = "path \<Rightarrow> node option"

definition parent :: "path \<Rightarrow> path" where
  "parent p = butlast p"

definition joinpath :: "path \<Rightarrow> string \<Rightarrow> path" where
  "joinpath p name = p @ [name]"

text \<open>The root always exists and is a directory; everything else is looked up.\<close>

definition stat :: "filesystem \<Rightarrow> path \<Rightarrow> node option" where
  "stat fs p = (if p = [] then Some Dir else fs p)"

definition exists_path :: "filesystem \<Rightarrow> path \<Rightarrow> bool" where
  "exists_path fs p = (stat fs p \<noteq> None)"

definition is_dir :: "filesystem \<Rightarrow> path \<Rightarrow> bool" where
  "is_dir fs p = (stat fs p = Some Dir)"

subsection \<open>Values read from the registry file\<close>

text \<open>
  What \<open>json.load\<close> returns: \<open>None\<close>, a bool, a number, a string, a list or a dict
  with string keys. A dict keeps its entries in insertion order. Numbers are integers
  here; no function below looks at one.
\<close>

datatype json =
  JNull | JBool bool | JNum int | JStr string | JArr "json list" | JObj "(string \<times> json) list"

subsection \<open>Exceptions\<close>

text \<open>
  An exception is its class and its message. A message is kept as the pieces of the
  f-string that builds it: literal text, \<open>str\<close> of a value and \<open>repr\<close> of a value
  (\<open>{x!r}\<close>). Exceptions raised by the interpreter or the standard library carry no
  message here.
\<close>

datatype exn_class =
  ValueError | FileNotFoundError | FileExistsError | IsADirectoryError
  | TypeError | AttributeError | KeyError | JSONDecodeError | YAMLError
  | PermissionError | UnicodeDecodeError

datatype frag = Txt string | Repr string | Str_of json

datatype error = Error exn_class "frag list"

subsection \<open>The marker-directory locator\<close>

text \<open>
  \<^verbatim>\<open>
  path = Path(path or ".").resolve()
  parent = path.parent.resolve()
  while path != parent:
      prefect_dir = path.joinpath(".prefect")
      if prefect_dir.is_dir():
          return prefect_dir
      path = parent.resolve()
      parent = path.parent.resolve()
  \<close>
  The loop is \<open>find_up\<close>. Falling out of the loop returns \<open>None\<close>.
\<close>

function find_up :: "filesystem \<Rightarrow> path \<Rightarrow> path option" where
  "find_up fs p =
     (if p \<noteq> parent p then
        (if is_dir fs (joinpath p ''.prefect'') then Some (joinpath p ''.prefect'')
         else find_up fs (parent p))
      else None)"
  by pat_completeness auto
termination
proof (relation "measure (\<lambda>(fs, p). length p)")
  show "wf (measure (\<lambda>(fs, p). length p))" by simp
next
  fix fs :: filesystem and p :: path
  assume "p \<noteq> parent p"
  then have "p \<noteq> []" by (auto simp: parent_def)
  then show "((fs, parent p), (fs, p)) \<in> measure (\<lambda>(fs, p). length p)"
    by (simp add: parent_def)
qed

declare find_up.simps [simp del]

text \<open>
  The argument is the location that \<open>path\<close> names; without one the search starts at
  the current working directory.
\<close>

definition find_prefect_directory :: "filesystem \<Rightarrow> path \<Rightarrow> path option \<Rightarrow> path option" where
  "find_prefect_directory fs cwd path_arg =
     find_up fs (case path_arg of None \<Rightarrow> cwd | Some p \<Rightarrow> p)"

subsection \<open>Creating the marker directory\<close>

text \<open>
  \<open>Path.mkdir\<close> fails when the name is taken and when the parent is not a directory.
\<close>

definition mkdir :: "filesystem \<Rightarrow> path \<Rightarrow> (error + unit) \<times> filesystem" where
  "mkdir fs p =
     (if exists_path fs p then (Inl (Error FileExistsError []), fs)
      else if \<not> is_dir fs (parent p) then (Inl (Error FileNotFoundError []), fs)
      else (Inr (), fs(p \<mapsto> Dir)))"

text \<open>
  \<^verbatim>\<open>
  path = Path(path or ".") / ".prefect"
  # use exists so that we dont accidentally overwrite a file
  if path.exists():
      return False
  path.mkdir(mode=0o0700)
  return True
  \<close>
\<close>

definition set_prefect_hidden_dir ::
  "filesystem \<Rightarrow> path \<Rightarrow> path option \<Rightarrow> (error + bool) \<times> filesystem" where
  "set_prefect_hidden_dir fs cwd path_arg =
     (let p = joinpath (case path_arg of None \<Rightarrow> cwd | Some d \<Rightarrow> d) ''.prefect'' in
      if exists_path fs p then (Inr False, fs)
      else (case mkdir fs p of
              (Inl e, fs') \<Rightarrow> (Inl e, fs')
            | (Inr u, fs') \<Rightarrow> (Inr True, fs')))"

subsection \<open>Strings\<close>

text \<open>
  \<open>s.rsplit(sep, 1)\<close>: the text before the last separator and the text after it, or the
  whole string alone when it has no separator.
\<close>

definition rsplit1 :: "char \<Rightarrow> string \<Rightarrow> string list" where
  "rsplit1 sep s =
     (if sep \<in> set s
      then [rev (tl (dropWhile (\<lambda>c. c \<noteq> sep) (rev s))), rev (takeWhile (\<lambda>c. c \<noteq> sep) (rev s))]
      else [s])"

text \<open>\<open>sub in s\<close> on strings: \<open>sub\<close> starts at some position of \<open>s\<close>.\<close>

primrec str_contains :: "string \<Rightarrow> string \<Rightarrow> bool" where
  "str_contains sub [] = (sub = [])"
| "str_contains sub (c # cs) = (prefix sub (c # cs) \<or> str_contains sub cs)"

text \<open>\<open>s.split(sep)\<close> for a one-character separator, and \<open>sep.join(parts)\<close>.\<close>

primrec split_on :: "char \<Rightarrow> string \<Rightarrow> string list" where
  "split_on sep [] = [[]]"
| "split_on sep (c # cs) =
     (if c = sep then [] # split_on sep cs
      else (case split_on sep cs of [] \<Rightarrow> [[c]] | w # ws \<Rightarrow> (c # w) # ws))"

primrec join_with :: "string \<Rightarrow> string list \<Rightarrow> string" where
  "join_with sep [] = []"
| "join_with sep (w # ws) = (if ws = [] then w else w @ sep @ join_with sep ws)"

subsection \<open>Paths as pathlib writes them\<close>

text \<open>
  \<open>Path(s)\<close> on a POSIX system keeps an anchor (none, \<open>/\<close>, or \<open>//\<close> for exactly two
  leading slashes) and the components between slashes; empty components and \<open>.\<close> are
  dropped, \<open>..\<close> is kept. \<open>absolute()\<close> puts the working directory in front of a path
  with no anchor, \<open>relative_to\<close> strips a leading path or raises \<open>ValueError\<close>, and
  \<open>str\<close> of a path with no component is \<open>.\<close>. All three are textual: they do not look
  at the disk.
\<close>

datatype anchor = Relative | Slash | DoubleSlash

type_synonym pure_path = "anchor \<times> string list"

definition anchor_of :: "string \<Rightarrow> anchor" where
  "anchor_of s =
     (if take 2 s = ''//'' \<and> take 3 s \<noteq> ''///'' then DoubleSlash
      else if take 1 s = ''/'' then Slash
      else Relative)"

definition Path :: "string \<Rightarrow> pure_path" where
  "Path s = (anchor_of s, filter (\<lambda>w. w \<noteq> [] \<and> w \<noteq> ''.'') (split_on CHR ''/'' s))"

definition absolute :: "path \<Rightarrow> pure_path \<Rightarrow> pure_path" where
  "absolute cwd p = (if fst p = Relative then (Slash, cwd @ snd p) else p)"

definition relative_to :: "pure_path \<Rightarrow> path \<Rightarrow> error + string list" where
  "relative_to p other =
     (if fst p = Slash \<and> prefix other (snd p) then Inr (drop (length other) (snd p))
      else Inl (Error ValueError []))"

definition str_relative :: "string list \<Rightarrow> string" where
  "str_relative ws = (if ws = [] then ''.'' else join_with ''/'' ws)"

definition str_absolute :: "path \<Rightarrow> string" where
  "str_absolute p = ''/'' @ join_with ''/'' p"

subsection \<open>Reading and writing files\<close>

text \<open>
  \<open>open(mode="r")\<close> followed by reading everything, \<open>open(mode="w")\<close> followed by one
  write, and \<open>open(mode="a")\<close> followed by one write. Opening a directory raises
  \<open>IsADirectoryError\<close>; reading a missing file, or writing where the parent is not a
  directory, raises \<open>FileNotFoundError\<close>. Permissions are not modelled.
\<close>

definition read_text :: "filesystem \<Rightarrow> path \<Rightarrow> error + string" where
  "read_text fs p =
     (case stat fs p of
        None \<Rightarrow> Inl (Error FileNotFoundError [])
      | Some Dir \<Rightarrow> Inl (Error IsADirectoryError [])
      | Some (File s) \<Rightarrow> Inr s)"

definition write_text :: "filesystem \<Rightarrow> path \<Rightarrow> string \<Rightarrow> (error + unit) \<times> filesystem" where
  "write_text fs p s =
     (case stat fs p of
        Some Dir \<Rightarrow> (Inl (Error IsADirectoryError []), fs)
      | Some (File old) \<Rightarrow> (Inr (), fs(p \<mapsto> File s))
      | None \<Rightarrow>
          (if is_dir fs (parent p) then (Inr (), fs(p \<mapsto> File s))
           else (Inl (Error FileNotFoundError []), fs)))"

definition append_text :: "filesystem \<Rightarrow> path \<Rightarrow> string \<Rightarrow> (error + unit) \<times> filesystem" where
  "append_text fs p s =
     (case stat fs p of
        Some Dir \<Rightarrow> (Inl (Error IsADirectoryError []), fs)
      | Some (File old) \<Rightarrow> (Inr (), fs(p \<mapsto> File (old @ s)))
      | None \<Rightarrow>
          (if is_dir fs (parent p) then (Inr (), fs(p \<mapsto> File s))
           else (Inl (Error FileNotFoundError []), fs)))"

subsection \<open>Registering a flow\<close>

text \<open>
  Python dicts as association lists: \<open>k in d\<close> and \<open>d[k]\<close> look the key up,
  \<open>d[k] = v\<close> replaces the value in place or adds the entry at the end.
\<close>

definition dict_get :: "(string \<times> 'v) list \<Rightarrow> string \<Rightarrow> 'v option" where
  "dict_get d k = map_of d k"

primrec dict_set :: "(string \<times> 'v) list \<Rightarrow> string \<Rightarrow> 'v \<Rightarrow> (string \<times> 'v) list" where
  "dict_set [] k v = [(k, v)]"
| "dict_set (e # d) k v = (if fst e = k then (k, v) # d else e # dict_set d k v)"

text \<open>
  What \<open>register_flow\<close> calls outside this module: \<open>load_flow_from_entrypoint\<close>, which
  imports the user's file and returns the flow object or raises, and the \<open>json\<close>
  codec. \<open>json_load\<close> is \<open>None\<close> where \<open>json.load\<close> raises \<open>JSONDecodeError\<close>;
  \<open>json_dump\<close> stands for \<open>json.dump(_, f, sort_keys=True, indent=2)\<close>. Loading the
  flow is taken to leave the disk alone.
\<close>

datatype flow = Flow (name: string)

record flow_lib =
  load_flow_from_entrypoint :: "string \<Rightarrow> error + flow"
  json_load :: "string \<Rightarrow> json option"
  json_dump :: "json \<Rightarrow> string"

text \<open>
  \<^verbatim>\<open>
  try:
      fpath, obj_name = entrypoint.rsplit(":", 1)
  except ValueError as exc:
      if str(exc) == "not enough values to unpack (expected 2, got 1)":
          missing_flow_name_msg = (
              "Your flow entrypoint must include the name of the function that is"
              f" the entrypoint to your flow.\nTry {entrypoint}:<flow_name>"
          )
          raise ValueError(missing_flow_name_msg)
      else:
          raise exc
  \<close>
  \<open>rsplit\<close> with a limit of one split returns one or two strings, so the unpacking
  fails only with the message tested for.
\<close>

definition missing_flow_name_msg :: "string \<Rightarrow> frag list" where
  "missing_flow_name_msg entrypoint =
     [Txt (''Your flow entrypoint must include the name of the function that is''
           @ '' the entrypoint to your flow.'' @ [CHR 0x0A] @ ''Try ''),
      Txt entrypoint, Txt '':<flow_name>'']"

definition unpack_entrypoint :: "string \<Rightarrow> error + string \<times> string" where
  "unpack_entrypoint entrypoint =
     (case rsplit1 CHR '':'' entrypoint of
        [fpath, obj_name] \<Rightarrow> Inr (fpath, obj_name)
      | _ \<Rightarrow> Inl (Error ValueError (missing_flow_name_msg entrypoint)))"

text \<open>
  \<^verbatim>\<open>
  flows_file = prefect_dir / "flows.json"
  if flows_file.exists():
      with flows_file.open(mode="r") as f:
          flows = json.load(f)
  else:
      flows = {}
  \<close>
\<close>

definition read_flows :: "flow_lib \<Rightarrow> filesystem \<Rightarrow> path \<Rightarrow> error + json" where
  "read_flows L fs flows_file =
     (if exists_path fs flows_file then
        (case read_text fs flows_file of
           Inl e \<Rightarrow> Inl e
         | Inr s \<Rightarrow> (case json_load L s of
                      None \<Rightarrow> Inl (Error JSONDecodeError [])
                    | Some j \<Rightarrow> Inr j))
      else Inr (JObj []))"

text \<open>
  Lines 270 to 287: the flow is loaded, the entrypoint is rewritten relative to the
  project root (the parent of the marker directory found from the working directory)
  and the registry is read. The result is the flow, the rewritten entrypoint, the
  registry file and what was read from it.
\<close>

definition registration_context ::
  "flow_lib \<Rightarrow> path \<Rightarrow> filesystem \<Rightarrow> string \<Rightarrow> string \<times> string
     \<Rightarrow> error + flow \<times> string \<times> path \<times> json" where
  "registration_context L cwd fs entrypoint split =
     (case load_flow_from_entrypoint L entrypoint of
        Inl e \<Rightarrow> Inl e
      | Inr flow \<Rightarrow>
          (let fpath = absolute cwd (Path (fst split)) in
           case find_prefect_directory fs cwd None of
             None \<Rightarrow>
               Inl (Error FileNotFoundError
                 [Txt (''No .prefect directory could be found - run `prefect project''
                       @ '' init` to create one.'')])
           | Some prefect_dir \<Rightarrow>
               (case relative_to fpath (parent prefect_dir) of
                  Inl e \<Rightarrow> Inl e
                | Inr rel \<Rightarrow>
                    (let entrypoint' = str_relative rel @ '':'' @ snd split;
                         flows_file = joinpath prefect_dir ''flows.json'' in
                     case read_flows L fs flows_file of
                       Inl e \<Rightarrow> Inl e
                     | Inr flows \<Rightarrow> Inr (flow, entrypoint', flows_file, flows)))))"

text \<open>
  \<^verbatim>\<open>
  ## quality control
  if flow.name in flows and flows[flow.name] != entrypoint:
      if not force:
          raise ValueError(
              "Conflicting entry found for flow with name"
              f" {flow.name!r}:\n{flow.name}: {flows[flow.name]}"
          )
  flows[flow.name] = entrypoint

  with flows_file.open(mode="w") as f:
      json.dump(flows, f, sort_keys=True, indent=2)

  return flow
  \<close>
  The file is opened for writing only after the check. A registry that is not a dict
  makes the membership test, the lookup or the assignment raise \<open>TypeError\<close>.
\<close>

definition conflict_msg :: "string \<Rightarrow> json \<Rightarrow> frag list" where
  "conflict_msg flow_name old =
     [Txt ''Conflicting entry found for flow with name '', Repr flow_name,
      Txt ('':'' @ [CHR 0x0A]), Txt flow_name, Txt '': '', Str_of old]"

definition store_flow ::
  "flow_lib \<Rightarrow> filesystem \<Rightarrow> path \<Rightarrow> (string \<times> json) list \<Rightarrow> flow \<Rightarrow> string
     \<Rightarrow> (error + flow) \<times> filesystem" where
  "store_flow L fs flows_file flows flow entrypoint =
     (case write_text fs flows_file
             (json_dump L (JObj (dict_set flows (name flow) (JStr entrypoint)))) of
        (Inl e, fs') \<Rightarrow> (Inl e, fs')
      | (Inr u, fs') \<Rightarrow> (Inr flow, fs'))"

definition quality_control ::
  "flow_lib \<Rightarrow> filesystem \<Rightarrow> bool \<Rightarrow> flow \<times> string \<times> path \<times> json
     \<Rightarrow> (error + flow) \<times> filesystem" where
  "quality_control L fs force ctx =
     (case ctx of (flow, entrypoint, flows_file, loaded) \<Rightarrow>
        (case loaded of
           JObj flows \<Rightarrow>
             (case dict_get flows (name flow) of
                Some old \<Rightarrow>
                  (if old \<noteq> JStr entrypoint \<and> \<not> force
                   then (Inl (Error ValueError (conflict_msg (name flow) old)), fs)
                   else store_flow L fs flows_file flows flow entrypoint)
              | None \<Rightarrow> store_flow L fs flows_file flows flow entrypoint)
         | _ \<Rightarrow> (Inl (Error TypeError []), fs)))"

definition register_flow ::
  "flow_lib \<Rightarrow> path \<Rightarrow> filesystem \<Rightarrow> string \<Rightarrow> bool \<Rightarrow> (error + flow) \<times> filesystem" where
  "register_flow L cwd fs entrypoint force =
     (case unpack_entrypoint entrypoint of
        Inl e \<Rightarrow> (Inl e, fs)
      | Inr split \<Rightarrow>
          (case registration_context L cwd fs entrypoint split of
             Inl e \<Rightarrow> (Inl e, fs)
           | Inr ctx \<Rightarrow> quality_control L fs force ctx))"

subsection \<open>Configuration values and template substitution\<close>

text \<open>
  What \<open>yaml.safe_load\<close> returns: \<open>None\<close>, a bool, a number, a string, a list or a
  dict with string keys. A string is kept the way the template engine reads it: literal
  text interleaved with named placeholder tokens, whose concrete syntax belongs to the
  engine. Numbers are integers here.
\<close>

datatype seg = Lit string | Placeholder string

datatype yaml =
  YNull | YBool bool | YInt int | YStr "seg list" | YList "yaml list"
  | YMap "(string \<times> yaml) list"

text \<open>Python truth: \<open>None\<close>, \<open>False\<close>, zero and the empty string, list and dict are false.\<close>

primrec truthy :: "yaml \<Rightarrow> bool" where
  "truthy YNull = False"
| "truthy (YBool b) = b"
| "truthy (YInt i) = (i \<noteq> 0)"
| "truthy (YStr segs) = list_ex (\<lambda>g. g \<noteq> Lit []) segs"
| "truthy (YList xs) = (xs \<noteq> [])"
| "truthy (YMap kvs) = (kvs \<noteq> [])"

text \<open>
  Modelled from the spec: \<open>apply_values\<close> of \<open>prefect.utilities.templating\<close>, which is
  imported and not part of this module. It walks the nested structure and substitutes
  in string leaves only: a placeholder named in the formatting context is replaced by
  its value; one that is not named stays as it is, or is blanked in the "remove unset"
  mode.
\<close>

definition substitute :: "(string \<rightharpoonup> string) \<Rightarrow> bool \<Rightarrow> seg \<Rightarrow> seg" where
  "substitute values remove_notset g =
     (case g of
        Lit s \<Rightarrow> Lit s
      | Placeholder n \<Rightarrow>
          (case values n of
             Some v \<Rightarrow> Lit v
           | None \<Rightarrow> if remove_notset then Lit [] else Placeholder n))"

primrec apply_values :: "yaml \<Rightarrow> (string \<rightharpoonup> string) \<Rightarrow> bool \<Rightarrow> yaml" where
  "apply_values YNull values remove_notset = YNull"
| "apply_values (YBool b) values remove_notset = YBool b"
| "apply_values (YInt i) values remove_notset = YInt i"
| "apply_values (YStr segs) values remove_notset = YStr (map (substitute values remove_notset) segs)"
| "apply_values (YList xs) values remove_notset =
     YList (map (\<lambda>x. apply_values x values remove_notset) xs)"
| "apply_values (YMap kvs) values remove_notset =
     YMap (map (map_prod id (\<lambda>x. apply_values x values remove_notset)) kvs)"

text \<open>
  A position inside a configuration: the keys and list indices that lead to it.
\<close>

datatype step = Key string | Index nat

primrec child :: "yaml \<Rightarrow> step \<Rightarrow> yaml option" where
  "child YNull s = None"
| "child (YBool b) s = None"
| "child (YInt i) s = None"
| "child (YStr segs) s = None"
| "child (YList xs) s = (case s of Index i \<Rightarrow> if i < length xs then Some (xs ! i) else None
                                  | Key k \<Rightarrow> None)"
| "child (YMap kvs) s = (case s of Key k \<Rightarrow> map_of kvs k | Index i \<Rightarrow> None)"

primrec yaml_at :: "step list \<Rightarrow> yaml \<Rightarrow> yaml option" where
  "yaml_at [] y = Some y"
| "yaml_at (s # ss) y = (case child y s of None \<Rightarrow> None | Some c \<Rightarrow> yaml_at ss c)"

subsection \<open>Loading a recipe\<close>

text \<open>
  What the module reads from its installation and calls in the \<open>yaml\<close> package:
  \<open>recipe_assets r\<close> is the parsed content of \<open>recipes/r/prefect.yaml\<close> beside the
  module, or \<open>None\<close> when that path does not exist; \<open>default_template\<close> is the parsed
  \<open>templates/prefect.yaml\<close>; \<open>yaml_safe_load\<close> is \<open>None\<close> where \<open>yaml.safe_load\<close>
  raises; \<open>yaml_dump\<close> stands for \<open>yaml.dump(_, sort_keys=False)\<close>.
\<close>

record project_lib =
  recipe_assets :: "string \<Rightarrow> yaml option"
  default_template :: yaml
  prefect_version :: string
  default_ignore_text :: string
  yaml_safe_load :: "string \<Rightarrow> yaml option"
  yaml_dump :: "yaml \<Rightarrow> string"

text \<open>
  \<^verbatim>\<open>
  recipe_path = Path(__file__).parent / "recipes" / recipe / "prefect.yaml"
  if not recipe_path.exists():
      raise ValueError(f"Unknown recipe {recipe!r} provided.")
  with recipe_path.open(mode="r") as f:
      config = yaml.safe_load(f)
  config = apply_values(
      template=config, values=formatting_kwargs, remove_notset=False
  )
  return config
  \<close>
\<close>

definition configure_project_by_recipe ::
  "project_lib \<Rightarrow> string \<Rightarrow> (string \<rightharpoonup> string) \<Rightarrow> error + yaml" where
  "configure_project_by_recipe A recipe formatting_kwargs =
     (case recipe_assets A recipe of
        None \<Rightarrow> Inl (Error ValueError [Txt ''Unknown recipe '', Repr recipe, Txt '' provided.''])
      | Some config \<Rightarrow> Inr (apply_values config formatting_kwargs False))"

subsection \<open>Asking git\<close>

text \<open>
  What running a git command through \<open>subprocess.check_output\<close> and decoding its
  output can come to: the command printed bytes that decode to a text; it printed
  bytes that \<open>.decode()\<close> rejects with \<open>UnicodeDecodeError\<close>; it exited with a non-zero
  status, which raises \<open>CalledProcessError\<close>; or the call raised something else, such as
  \<open>FileNotFoundError\<close> or \<open>PermissionError\<close> when git cannot be launched. The two
  helpers catch \<open>CalledProcessError\<close> only, so the other exceptions leave them.
  \<open>strip()\<close> removes the ASCII whitespace at both ends.
\<close>

datatype proc_outcome =
  Output string | Undecodable_output | CalledProcessError | Not_launched error

definition is_space :: "char \<Rightarrow> bool" where
  "is_space c = (c \<in> set [CHR 0x09, CHR 0x0A, CHR 0x0B, CHR 0x0C, CHR 0x0D,
                             CHR 0x1C, CHR 0x1D, CHR 0x1E, CHR 0x1F, CHR '' ''])"

definition strip :: "string \<Rightarrow> string" where
  "strip s = rev (dropWhile is_space (rev (dropWhile is_space s)))"

text \<open>
  The surroundings of a call: the working directory, whether it is a git repository,
  and what the two git commands come to there. The code never reads
  \<open>git_repository\<close>; all it learns about git is the outcome of the two commands. In a
  repository that has no remote named \<open>origin\<close>, \<open>git config --get remote.origin.url\<close>
  exits with status 1.
\<close>

record environment =
  cwd :: path
  git_repository :: bool
  git_config_get_remote_origin_url :: proc_outcome
  git_rev_parse_abbrev_ref_head :: proc_outcome

text \<open>
  \<^verbatim>\<open>
  try:
      origin_url = subprocess.check_output(
          ["git", "config", "--get", "remote.origin.url"],
          shell=sys.platform == "win32",
          stderr=subprocess.DEVNULL,
      )
      origin_url = origin_url.decode().strip()
  except subprocess.CalledProcessError:
      return None
  return origin_url
  \<close>
\<close>

definition get_git_remote_origin_url :: "environment \<Rightarrow> error + string option" where
  "get_git_remote_origin_url env =
     (case git_config_get_remote_origin_url env of
        Output origin_url \<Rightarrow> Inr (Some (strip origin_url))
      | Undecodable_output \<Rightarrow> Inl (Error UnicodeDecodeError [])
      | CalledProcessError \<Rightarrow> Inr None
      | Not_launched e \<Rightarrow> Inl e)"

text \<open>
  \<^verbatim>\<open>
  try:
      branch = subprocess.check_output(["git", "rev-parse", "--abbrev-ref", "HEAD"])
      branch = branch.decode().strip()
  except subprocess.CalledProcessError:
      return None
  return branch
  \<close>
\<close>

definition get_git_branch :: "environment \<Rightarrow> error + string option" where
  "get_git_branch env =
     (case git_rev_parse_abbrev_ref_head env of
        Output branch \<Rightarrow> Inr (Some (strip branch))
      | Undecodable_output \<Rightarrow> Inl (Error UnicodeDecodeError [])
      | CalledProcessError \<Rightarrow> Inr None
      | Not_launched e \<Rightarrow> Inl e)"

subsection \<open>Writing the project files\<close>

text \<open>
  Modelled from the spec: \<open>create_default_ignore_file\<close> of
  \<open>prefect.utilities.filesystem\<close>, which is imported and not part of this module. It
  creates the ignore-file in the given directory unless something of that name exists,
  and tells whether it created it. The file name is the one \<open>initialize_project\<close>
  reports.
\<close>

definition create_default_ignore_file ::
  "project_lib \<Rightarrow> filesystem \<Rightarrow> path \<Rightarrow> (error + bool) \<times> filesystem" where
  "create_default_ignore_file A fs dir =
     (let ignore_file = joinpath dir ''.prefectignore'' in
      if exists_path fs ignore_file then (Inr False, fs)
      else (case write_text fs ignore_file (default_ignore_text A) of
              (Inl e, fs') \<Rightarrow> (Inl e, fs')
            | (Inr u, fs') \<Rightarrow> (Inr True, fs')))"

text \<open>
  \<open>create_default_prefect_yaml\<close>, lines 71 to 124. The file is opened for writing and
  then filled section by section; \<open>contents["build"]\<close>, \<open>contents["push"]\<close> and
  \<open>contents["pull"]\<close> raise \<open>KeyError\<close> when the key is missing, after the comment
  line of that section has been written, and the \<open>with\<close> block closes the file with
  what was written so far. Assigning a key to something that is not a dict raises
  \<open>TypeError\<close> before the file is opened. The name is written as passed: with no
  name the file gets a null name, and it is \<open>initialize_project\<close> that falls back
  to the directory name before it calls.
\<close>

definition header_text :: string where
  "header_text =
     ''# File for configuring project / deployment build, push and pull steps''
     @ [CHR 0x0A, CHR 0x0A] @ ''# Generic metadata about this project'' @ [CHR 0x0A]"

definition build_comment :: string where
  "build_comment =
     ''# build section allows you to manage and build docker images'' @ [CHR 0x0A]"

definition push_comment :: string where
  "push_comment =
     ''# push section allows you to manage if and how this project is uploaded to''
     @ '' remote locations'' @ [CHR 0x0A]"

definition pull_comment :: string where
  "pull_comment =
     ''# pull section allows you to provide instructions for cloning this project''
     @ '' in remote locations'' @ [CHR 0x0A]"

definition deployments_comment :: string where
  "deployments_comment =
     ''# the deployments section allows you to provide configuration for''
     @ '' deploying flows'' @ [CHR 0x0A]"

definition write_sections ::
  "project_lib \<Rightarrow> (string \<times> yaml) list \<Rightarrow> (error + unit) \<times> string" where
  "write_sections A contents =
     (let dump = (\<lambda>k v. yaml_dump A (YMap [(k, v)]));
          t0 = header_text
               @ dump ''name'' (case dict_get contents ''name'' of Some v \<Rightarrow> v | None \<Rightarrow> YNull)
               @ dump ''prefect-version''
                   (case dict_get contents ''prefect-version'' of Some v \<Rightarrow> v | None \<Rightarrow> YNull)
               @ [CHR 0x0A] @ build_comment in
      case dict_get contents ''build'' of
        None \<Rightarrow> (Inl (Error KeyError [Repr ''build'']), t0)
      | Some b \<Rightarrow>
          (let t1 = t0 @ dump ''build'' b @ [CHR 0x0A] @ push_comment in
           case dict_get contents ''push'' of
             None \<Rightarrow> (Inl (Error KeyError [Repr ''push'']), t1)
           | Some p \<Rightarrow>
               (let t2 = t1 @ dump ''push'' p @ [CHR 0x0A] @ pull_comment in
                case dict_get contents ''pull'' of
                  None \<Rightarrow> (Inl (Error KeyError [Repr ''pull'']), t2)
                | Some q \<Rightarrow>
                    (Inr (), t2 @ dump ''pull'' q @ [CHR 0x0A] @ deployments_comment
                          @ dump ''deployments''
                              (case dict_get contents ''deployments'' of
                                 Some d \<Rightarrow> d | None \<Rightarrow> YList [])))))"

definition create_default_prefect_yaml ::
  "project_lib \<Rightarrow> filesystem \<Rightarrow> path \<Rightarrow> string option \<Rightarrow> yaml
     \<Rightarrow> (error + bool) \<times> filesystem" where
  "create_default_prefect_yaml A fs dir project_name contents =
     (let prefect_file = joinpath dir ''prefect.yaml'' in
      if exists_path fs prefect_file then (Inr False, fs)
      else
        (case (if contents = YNull then default_template A else contents) of
           YMap kvs \<Rightarrow>
             (let c1 = dict_set kvs ''prefect-version'' (YStr [Lit (prefect_version A)]);
                  c2 = dict_set c1 ''name''
                         (case project_name of None \<Rightarrow> YNull | Some n \<Rightarrow> YStr [Lit n]) in
              if \<not> is_dir fs (parent prefect_file)
              then (Inl (Error FileNotFoundError []), fs)
              else (case write_sections A c2 of
                      (Inl e, written) \<Rightarrow> (Inl e, fs(prefect_file \<mapsto> File written))
                    | (Inr u, written) \<Rightarrow> (Inr True, fs(prefect_file \<mapsto> File written))))
         | _ \<Rightarrow> (Inl (Error TypeError []), fs)))"

subsection \<open>Initializing a project\<close>

text \<open>
  \<open>initialize_project\<close>, lines 199 to 218: the formatting context inferred from the
  working directory, before the caller's inputs are merged in.
  \<^verbatim>\<open>
  is_git_based = False
  formatting_kwargs = {"directory": str(Path(".").absolute().resolve())}
  dir_name = os.path.basename(os.getcwd())

  remote_url = _get_git_remote_origin_url()
  if remote_url:
      formatting_kwargs["repository"] = remote_url
      is_git_based = True
      branch = _get_git_branch()
      formatting_kwargs["branch"] = branch or "main"

  formatting_kwargs["name"] = dir_name

  has_dockerfile = Path("Dockerfile").exists()

  if has_dockerfile:
      formatting_kwargs["dockerfile"] = "Dockerfile"
  elif recipe is not None and "docker" in recipe:
      formatting_kwargs["dockerfile"] = "auto"
  \<close>
\<close>

definition dir_name :: "environment \<Rightarrow> string" where
  "dir_name env = (if cwd env = [] then [] else last (cwd env))"

text \<open>
  Lines 204 to 209, the two calls: the branch is asked for only when the remote URL is
  a non-empty string, and an exception that leaves either helper leaves
  \<open>initialize_project\<close>, before anything else is done. The result is \<open>remote_url\<close> and
  \<open>branch\<close> (\<open>None\<close> when it was not asked for).
\<close>

definition is_git_based :: "string option \<Rightarrow> bool" where
  "is_git_based remote_url = (case remote_url of None \<Rightarrow> False | Some u \<Rightarrow> u \<noteq> [])"

definition git_context :: "environment \<Rightarrow> error + string option \<times> string option" where
  "git_context env =
     (case get_git_remote_origin_url env of
        Inl e \<Rightarrow> Inl e
      | Inr remote_url \<Rightarrow>
          (if is_git_based remote_url
           then (case get_git_branch env of
                   Inl e \<Rightarrow> Inl e
                 | Inr branch \<Rightarrow> Inr (remote_url, branch))
           else Inr (remote_url, None)))"

definition has_dockerfile :: "environment \<Rightarrow> filesystem \<Rightarrow> bool" where
  "has_dockerfile env fs = exists_path fs (joinpath (cwd env) ''Dockerfile'')"

definition inferred_kwargs ::
  "environment \<Rightarrow> filesystem \<Rightarrow> string option \<Rightarrow> string option \<Rightarrow> string option
     \<Rightarrow> (string \<rightharpoonup> string)" where
  "inferred_kwargs env fs recipe remote_url branch =
     (let kw0 = [''directory'' \<mapsto> str_absolute (cwd env)];
          kw1 = (if is_git_based remote_url
                 then kw0(''repository'' \<mapsto> (case remote_url of Some u \<Rightarrow> u | None \<Rightarrow> []),
                          ''branch'' \<mapsto> (case branch of
                                             None \<Rightarrow> ''main''
                                           | Some b \<Rightarrow> if b = [] then ''main'' else b))
                 else kw0);
          kw2 = kw1(''name'' \<mapsto> dir_name env) in
      if has_dockerfile env fs then kw2(''dockerfile'' \<mapsto> ''Dockerfile'')
      else (case recipe of
              None \<Rightarrow> kw2
            | Some r \<Rightarrow> if str_contains ''docker'' r then kw2(''dockerfile'' \<mapsto> ''auto'') else kw2))"

text \<open>
  \<^verbatim>\<open>
  if is_git_based and recipe is None:
      if has_dockerfile:
          recipe = "docker-git"
      else:
          recipe = "git"
  elif recipe is None and has_dockerfile:
      recipe = "docker"
  elif recipe is None:
      recipe = "local"
  \<close>
\<close>

definition select_recipe :: "bool \<Rightarrow> bool \<Rightarrow> string option \<Rightarrow> string" where
  "select_recipe git_based dockerfile recipe =
     (if git_based \<and> recipe = None then (if dockerfile then ''docker-git'' else ''git'')
      else if recipe = None \<and> dockerfile then ''docker''
      else (case recipe of None \<Rightarrow> ''local'' | Some r \<Rightarrow> r))"

text \<open>
  The value of \<open>recipe\<close> after line 229 in a call of \<open>initialize_project\<close>, or the
  exception that left a git helper before.
\<close>

definition selected_recipe :: "environment \<Rightarrow> filesystem \<Rightarrow> string option \<Rightarrow> error + string" where
  "selected_recipe env fs recipe =
     (case git_context env of
        Inl e \<Rightarrow> Inl e
      | Inr (remote_url, branch) \<Rightarrow>
          Inr (select_recipe (is_git_based remote_url) (has_dockerfile env fs) recipe))"

text \<open>
  \<^verbatim>\<open>
  formatting_kwargs.update(inputs or {})
  configuration = configure_project_by_recipe(recipe=recipe, **formatting_kwargs)
  \<close>
  The context is passed as keyword arguments beside \<open>recipe=\<close>, so a context key
  \<open>recipe\<close> (only \<open>inputs\<close> can bring one) makes the call itself raise \<open>TypeError\<close>.
\<close>

definition merged_kwargs ::
  "environment \<Rightarrow> filesystem \<Rightarrow> string option \<Rightarrow> string option \<Rightarrow> string option
     \<Rightarrow> (string \<rightharpoonup> string) option \<Rightarrow> (string \<rightharpoonup> string)" where
  "merged_kwargs env fs recipe remote_url branch inputs =
     inferred_kwargs env fs recipe remote_url branch
       ++ (case inputs of None \<Rightarrow> Map.empty | Some m \<Rightarrow> m)"

definition load_configuration ::
  "project_lib \<Rightarrow> environment \<Rightarrow> filesystem \<Rightarrow> string option
     \<Rightarrow> (string \<rightharpoonup> string) option \<Rightarrow> error + yaml" where
  "load_configuration A env fs recipe inputs =
     (case git_context env of
        Inl e \<Rightarrow> Inl e
      | Inr (remote_url, branch) \<Rightarrow>
          (let formatting_kwargs = merged_kwargs env fs recipe remote_url branch inputs;
               recipe' = select_recipe (is_git_based remote_url) (has_dockerfile env fs) recipe in
           if formatting_kwargs ''recipe'' \<noteq> None then Inl (Error TypeError [])
           else configure_project_by_recipe A recipe' formatting_kwargs))"

text \<open>
  \<^verbatim>\<open>
  project_name = name or dir_name

  files = []
  if create_default_ignore_file("."):
      files.append(".prefectignore")
  if create_default_prefect_yaml(".", name=project_name, contents=configuration):
      files.append("prefect.yaml")
  if set_prefect_hidden_dir():
      files.append(".prefect/")

  return files
  \<close>
\<close>

definition initialize_project ::
  "project_lib \<Rightarrow> environment \<Rightarrow> filesystem \<Rightarrow> string option \<Rightarrow> string option
     \<Rightarrow> (string \<rightharpoonup> string) option \<Rightarrow> (error + string list) \<times> filesystem" where
  "initialize_project A env fs project_name recipe inputs =
     (case load_configuration A env fs recipe inputs of
        Inl e \<Rightarrow> (Inl e, fs)
      | Inr configuration \<Rightarrow>
          (let project_name' = (case project_name of
                                  None \<Rightarrow> dir_name env
                                | Some n \<Rightarrow> if n = [] then dir_name env else n) in
           case create_default_ignore_file A fs (cwd env) of
             (Inl e, fs1) \<Rightarrow> (Inl e, fs1)
           | (Inr made_ignore, fs1) \<Rightarrow>
               (case create_default_prefect_yaml A fs1 (cwd env) (Some project_name') configuration of
                  (Inl e, fs2) \<Rightarrow> (Inl e, fs2)
                | (Inr made_yaml, fs2) \<Rightarrow>
                    (case set_prefect_hidden_dir fs2 (cwd env) None of
                       (Inl e, fs3) \<Rightarrow> (Inl e, fs3)
                     | (Inr made_dir, fs3) \<Rightarrow>
                         (Inr ((if made_ignore then [''.prefectignore''] else [])
                               @ (if made_yaml then [''prefect.yaml''] else [])
                               @ (if made_dir then [''.prefect/''] else [])), fs3)))))"

subsection \<open>Migrating the legacy deployment file\<close>

text \<open>
  \<open>_copy_deployments_into_prefect_file\<close>, lines 311 to 341.
  \<open>parsed_deployment_file_contents.get("deployments")\<close> comes before the three cases
  and needs a dict: on anything else, \<open>None\<close> included, it raises \<open>AttributeError\<close>.
  The two writes in each case are one append of a newline followed by the payload.
\<close>

definition copy_deployments_into_prefect_file ::
  "project_lib \<Rightarrow> environment \<Rightarrow> filesystem \<Rightarrow> (error + unit) \<times> filesystem" where
  "copy_deployments_into_prefect_file A env fs =
     (let prefect_file = joinpath (cwd env) ''prefect.yaml'';
          deployment_file = joinpath (cwd env) ''deployment.yaml'' in
      if \<not> exists_path fs deployment_file \<or> \<not> exists_path fs prefect_file
      then (Inl (Error FileNotFoundError
                   [Txt ''Could not find `prefect.yaml` or `deployment.yaml` files.'']), fs)
      else
        (case read_text fs deployment_file of
           Inl e \<Rightarrow> (Inl e, fs)
         | Inr raw_deployment_file_contents \<Rightarrow>
             (case yaml_safe_load A raw_deployment_file_contents of
                None \<Rightarrow> (Inl (Error YAMLError []), fs)
              | Some parsed \<Rightarrow>
                  (case parsed of
                     YMap kvs \<Rightarrow>
                       (let deployments = (case dict_get kvs ''deployments'' of
                                             None \<Rightarrow> YNull | Some d \<Rightarrow> d) in
                        append_text fs prefect_file
                          ([CHR 0x0A] @
                           (if \<not> truthy parsed
                            then yaml_dump A (YMap [(''deployments'', YList [])])
                            else if \<not> truthy deployments
                            then yaml_dump A (YMap [(''deployments'', YList [parsed])])
                            else raw_deployment_file_contents)))
                   | _ \<Rightarrow> (Inl (Error AttributeError []), fs)))))"

subsection \<open>A sample project\<close>

text \<open>
  A project \<open>/proj\<close> with its marker directory and a registry that maps the flow
  \<open>my-flow\<close> to \<open>flows.py:my_flow\<close>, and a flow library whose loader always finds the
  flow \<open>my-flow\<close>. The theorems below are run on it.
\<close>

definition sample_flow_lib :: flow_lib where
  "sample_flow_lib =
     \<lparr>load_flow_from_entrypoint = (\<lambda>e. Inr (Flow ''my-flow'')),
      json_load = (\<lambda>s. Some (JObj [(''my-flow'', JStr ''flows.py:my_flow'')])),
      json_dump = (\<lambda>j. ''dumped'')\<rparr>"

definition sample_fs :: filesystem where
  "sample_fs =
     [[''proj''] \<mapsto> Dir, [''proj'', ''.prefect''] \<mapsto> Dir,
      [''proj'', ''.prefect'', ''flows.json''] \<mapsto> File ''old'']"

text \<open>
  A recipe with placeholders, a project library that knows the recipe \<open>local\<close> only,
  working directories with and without a git remote, and filesystems with a
  Dockerfile, with all three project files, and with a legacy \<open>deployment.yaml\<close>.
\<close>

definition sample_recipe :: yaml where
  "sample_recipe =
     YMap [(''name'', YStr [Placeholder ''name'']),
           (''build'', YNull), (''push'', YNull),
           (''pull'', YList [YMap [(''directory'',
              YStr [Lit ''cd '', Placeholder ''directory'', Lit ''/'', Placeholder ''image''])]])]"

definition sample_project_lib :: project_lib where
  "sample_project_lib =
     \<lparr>recipe_assets = (\<lambda>r. if r = ''local'' then Some sample_recipe else None),
      default_template = YMap [],
      prefect_version = ''2.10'',
      default_ignore_text = ''__pycache__'',
      yaml_safe_load =
        (\<lambda>s. if s = [] then Some YNull
             else if s = ''deployments: []'' then Some (YMap [(''deployments'', YList [])])
             else None),
      yaml_dump = (\<lambda>y. ''dumped'')\<rparr>"

definition sample_env :: environment where
  "sample_env =
     \<lparr>cwd = [''proj''], git_repository = False,
      git_config_get_remote_origin_url = CalledProcessError,
      git_rev_parse_abbrev_ref_head = CalledProcessError\<rparr>"

definition sample_git_env :: environment where
  "sample_git_env =
     \<lparr>cwd = [''proj''], git_repository = True,
      git_config_get_remote_origin_url = Output (''https://example.org/repo.git'' @ [CHR 0x0A]),
      git_rev_parse_abbrev_ref_head = Output (''dev'' @ [CHR 0x0A])\<rparr>"

text \<open>A repository made by \<open>git init\<close>, with no remote, on the branch \<open>dev\<close>.\<close>

definition sample_no_origin_env :: environment where
  "sample_no_origin_env =
     \<lparr>cwd = [''proj''], git_repository = True,
      git_config_get_remote_origin_url = CalledProcessError,
      git_rev_parse_abbrev_ref_head = Output (''dev'' @ [CHR 0x0A])\<rparr>"

definition sample_docker_fs :: filesystem where
  "sample_docker_fs = sample_fs([''proj'', ''Dockerfile''] \<mapsto> File ''FROM python'')"

definition sample_initialized_fs :: filesystem where
  "sample_initialized_fs =
     sample_fs([''proj'', ''.prefectignore''] \<mapsto> File ''__pycache__'',
               [''proj'', ''prefect.yaml''] \<mapsto> File ''name: proj'')"

definition sample_legacy_fs :: "string \<Rightarrow> filesystem" where
  "sample_legacy_fs legacy =
     sample_fs([''proj'', ''prefect.yaml''] \<mapsto> File ''name: proj'',
               [''proj'', ''deployment.yaml''] \<mapsto> File legacy)"

section \<open>Properties\<close>

subsection \<open>What the locator finds\<close>

lemma find_up_root: "find_up fs [] = None"
  by (simp add: find_up.simps parent_def)

lemma find_up_snoc:
  "find_up fs (p @ [c]) =
     (if is_dir fs (p @ [c, ''.prefect'']) then Some (p @ [c, ''.prefect''])
      else find_up fs p)"
  by (subst find_up.simps) (simp add: parent_def joinpath_def)

text \<open>
  Below the root the search is exact: it returns the marker of the longest prefix of
  the starting path that has one, provided that prefix is not the root.
\<close>

lemma find_up_nearest:
  assumes "prefix a p" and "a \<noteq> []" and "is_dir fs (a @ [''.prefect''])"
    and "\<And>b. prefix b p \<Longrightarrow> length a < length b \<Longrightarrow> \<not> is_dir fs (b @ [''.prefect''])"
  shows "find_up fs p = Some (a @ [''.prefect''])"
  using assms
proof (induction p rule: rev_induct)
  case Nil
  then show ?case by simp
next
  case (snoc c p)
  show ?case
  proof (cases "a = p @ [c]")
    case True
    with snoc.prems(3) show ?thesis by (simp add: find_up_snoc)
  next
    case False
    with snoc.prems(1) have ap: "prefix a p" by (auto simp: prefix_snoc)
    then have "length a \<le> length p" by (rule prefix_length_le)
    then have "\<not> is_dir fs ((p @ [c]) @ [''.prefect''])"
      using snoc.prems(4) [of "p @ [c]"] by simp
    moreover have "find_up fs p = Some (a @ [''.prefect''])"
    proof (rule snoc.IH [OF ap snoc.prems(2) snoc.prems(3)])
      fix b assume "prefix b p" and "length a < length b"
      then show "\<not> is_dir fs (b @ [''.prefect''])"
        using snoc.prems(4) [of b] by simp
    qed
    ultimately show ?thesis by (simp add: find_up_snoc)
  qed
qed

lemma find_up_None_iff:
  "find_up fs p = None \<longleftrightarrow> (\<forall>a. prefix a p \<and> a \<noteq> [] \<longrightarrow> \<not> is_dir fs (a @ [''.prefect'']))"
proof (induction p rule: rev_induct)
  case Nil
  then show ?case by (simp add: find_up_root)
next
  case (snoc c p)
  then show ?case by (auto simp: find_up_snoc prefix_snoc)
qed

lemma find_up_Some_is_dir:
  "find_up fs p = Some d \<Longrightarrow> is_dir fs d \<and> (\<exists>a. prefix a p \<and> a \<noteq> [] \<and> d = a @ [''.prefect''])"
proof (induction p rule: rev_induct)
  case Nil
  then show ?case by (simp add: find_up_root)
next
  case (snoc c p)
  then show ?case by (auto simp: find_up_snoc split: if_splits)
qed

text \<open>
  C1. The locator is claimed to return the marker directory of the nearest ancestor of
  the starting path that has one, the starting path itself and the filesystem root
  included. The loop stops as soon as the path equals its parent, before it has tested
  the root: with a marker directory \<open>/.prefect\<close> and none below it, the search from
  \<open>/srv\<close>, and the search from the root itself, both return \<open>None\<close>.
\<close>

theorem find_prefect_directory_misses_root_marker:
  "is_dir [[''.prefect''] \<mapsto> Dir, [''srv''] \<mapsto> Dir] (joinpath [] ''.prefect'')
   \<and> prefix [] [''srv'']
   \<and> find_prefect_directory [[''.prefect''] \<mapsto> Dir, [''srv''] \<mapsto> Dir] [''srv''] (Some [''srv'']) = None
   \<and> find_prefect_directory [[''.prefect''] \<mapsto> Dir, [''srv''] \<mapsto> Dir] [] None = None"
  by (simp add: find_prefect_directory_def find_up.simps parent_def joinpath_def is_dir_def stat_def)

lemma find_up_file_marker:
  assumes "stat fs (joinpath d ''.prefect'') = Some (File c)"
  shows "find_up fs d = find_up fs (parent d)"
proof (cases "d = []")
  case True
  then show ?thesis by (simp add: parent_def)
next
  case False
  then have "length (parent d) < length d" by (simp add: parent_def)
  then have "d \<noteq> parent d" by auto
  with assms show ?thesis by (subst find_up.simps) (simp add: is_dir_def)
qed

subsection \<open>A regular file in the marker's place\<close>

text \<open>
  C9. When a regular file named \<open>.prefect\<close> exists in the target directory,
  \<open>set_prefect_hidden_dir\<close> returns \<open>False\<close> and leaves the filesystem as it was. No
  marker directory exists there: the locator's \<open>is_dir\<close> test fails at that location,
  so a search starting there goes on from the parent and never returns that path.
\<close>

theorem set_prefect_hidden_dir_regular_file:
  assumes "stat fs (joinpath (case path_arg of None \<Rightarrow> wd | Some d \<Rightarrow> d) ''.prefect'') = Some (File c)"
  shows "set_prefect_hidden_dir fs wd path_arg = (Inr False, fs)
     \<and> \<not> is_dir fs (joinpath (case path_arg of None \<Rightarrow> wd | Some d \<Rightarrow> d) ''.prefect'')
     \<and> find_prefect_directory fs wd path_arg
         = find_up fs (parent (case path_arg of None \<Rightarrow> wd | Some d \<Rightarrow> d))
     \<and> find_prefect_directory fs wd path_arg
         \<noteq> Some (joinpath (case path_arg of None \<Rightarrow> wd | Some d \<Rightarrow> d) ''.prefect'')"
proof -
  let ?d = "case path_arg of None \<Rightarrow> wd | Some d \<Rightarrow> d"
  have nd: "\<not> is_dir fs (joinpath ?d ''.prefect'')" using assms by (simp add: is_dir_def)
  have ex: "exists_path fs (joinpath ?d ''.prefect'')" using assms by (simp add: exists_path_def)
  have "set_prefect_hidden_dir fs wd path_arg = (Inr False, fs)"
    using ex by (simp add: set_prefect_hidden_dir_def)
  moreover have "find_prefect_directory fs wd path_arg = find_up fs (parent ?d)"
    unfolding find_prefect_directory_def by (rule find_up_file_marker [OF assms])
  moreover have "find_prefect_directory fs wd path_arg \<noteq> Some (joinpath ?d ''.prefect'')"
    unfolding find_prefect_directory_def using find_up_Some_is_dir [of fs ?d "joinpath ?d ''.prefect''"] nd
    by blast
  ultimately show ?thesis using nd by simp
qed

theorem set_prefect_hidden_dir_regular_file_witness:
  "set_prefect_hidden_dir [[''proj'', ''.prefect''] \<mapsto> File ''x''] [''proj''] None
     = (Inr False, [[''proj'', ''.prefect''] \<mapsto> File ''x''])
   \<and> find_prefect_directory [[''proj'', ''.prefect''] \<mapsto> File ''x''] [''proj''] None = None"
  using set_prefect_hidden_dir_regular_file [where fs = "[[''proj'', ''.prefect''] \<mapsto> File ''x'']" and path_arg = None
      and wd = "[''proj'']" and c = "''x''"]
  by (simp add: joinpath_def stat_def parent_def find_up_root)

subsection \<open>Splitting the entrypoint\<close>

lemma rsplit1_without_sep: "sep \<notin> set s \<Longrightarrow> rsplit1 sep s = [s]"
  by (simp add: rsplit1_def)

lemma rsplit1_with_sep:
  assumes "sep \<in> set s"
  shows "\<exists>a b. rsplit1 sep s = [a, b] \<and> s = a @ sep # b \<and> sep \<notin> set b"
proof -
  let ?r = "rev s"
  let ?tw = "takeWhile (\<lambda>c. c \<noteq> sep) ?r"
  let ?dw = "dropWhile (\<lambda>c. c \<noteq> sep) ?r"
  from assms have "sep \<in> set ?r" by simp
  then have dw_ne: "?dw \<noteq> []" by (auto simp: dropWhile_eq_Nil_conv)
  then have "hd ?dw = sep" using hd_dropWhile [of "\<lambda>c. c \<noteq> sep" ?r] by simp
  with dw_ne have dw: "?dw = sep # tl ?dw" by (metis list.collapse)
  have "?r = ?tw @ ?dw" by simp
  with dw have "?r = ?tw @ sep # tl ?dw" by simp
  then have "rev ?r = rev (?tw @ sep # tl ?dw)" by (rule arg_cong)
  then have s: "s = rev (tl ?dw) @ sep # rev ?tw" by simp
  have "sep \<notin> set (rev ?tw)" by (auto dest: set_takeWhileD)
  with s assms show ?thesis unfolding rsplit1_def by auto
qed

lemma unpack_entrypoint_without_colon:
  "CHR '':'' \<notin> set entrypoint \<Longrightarrow>
   unpack_entrypoint entrypoint = Inl (Error ValueError (missing_flow_name_msg entrypoint))"
  by (simp add: unpack_entrypoint_def rsplit1_without_sep)

text \<open>
  C5. An entrypoint with no colon makes \<open>register_flow\<close> fail, before anything is loaded
  or written, with a \<open>ValueError\<close> whose message ends in "Try", the entrypoint and
  \<open>:<flow_name>\<close>. An entrypoint with a colon is split at its last colon into the path
  and the qualifier (the qualifier has no colon, and path, colon and qualifier give the
  entrypoint back), and \<open>register_flow\<close> goes on with these two.
\<close>

theorem register_flow_entrypoint_colon:
  "(CHR '':'' \<notin> set entrypoint \<longrightarrow>
      register_flow L wd fs entrypoint force
        = (Inl (Error ValueError
                  [Txt (''Your flow entrypoint must include the name of the function that is''
                        @ '' the entrypoint to your flow.'' @ [CHR 0x0A] @ ''Try ''),
                   Txt entrypoint, Txt '':<flow_name>'']), fs))
   \<and> (CHR '':'' \<in> set entrypoint \<longrightarrow>
        (\<exists>fpath obj_name.
           rsplit1 CHR '':'' entrypoint = [fpath, obj_name]
           \<and> entrypoint = fpath @ '':'' @ obj_name
           \<and> CHR '':'' \<notin> set obj_name
           \<and> register_flow L wd fs entrypoint force
               = (case registration_context L wd fs entrypoint (fpath, obj_name) of
                    Inl e \<Rightarrow> (Inl e, fs)
                  | Inr ctx \<Rightarrow> quality_control L fs force ctx)))"
proof (intro conjI impI)
  assume "CHR '':'' \<notin> set entrypoint"
  then show "register_flow L wd fs entrypoint force
        = (Inl (Error ValueError
                  [Txt (''Your flow entrypoint must include the name of the function that is''
                        @ '' the entrypoint to your flow.'' @ [CHR 0x0A] @ ''Try ''),
                   Txt entrypoint, Txt '':<flow_name>'']), fs)"
    by (simp add: register_flow_def unpack_entrypoint_without_colon missing_flow_name_msg_def)
next
  assume "CHR '':'' \<in> set entrypoint"
  from rsplit1_with_sep [OF this] obtain a b
    where ab: "rsplit1 CHR '':'' entrypoint = [a, b]" "entrypoint = a @ CHR '':'' # b"
      "CHR '':'' \<notin> set b" by blast
  then have "unpack_entrypoint entrypoint = Inr (a, b)" by (simp add: unpack_entrypoint_def)
  then have "register_flow L wd fs entrypoint force
               = (case registration_context L wd fs entrypoint (a, b) of
                    Inl e \<Rightarrow> (Inl e, fs)
                  | Inr ctx \<Rightarrow> quality_control L fs force ctx)"
    by (simp add: register_flow_def)
  with ab show "\<exists>fpath obj_name.
           rsplit1 CHR '':'' entrypoint = [fpath, obj_name]
           \<and> entrypoint = fpath @ '':'' @ obj_name
           \<and> CHR '':'' \<notin> set obj_name
           \<and> register_flow L wd fs entrypoint force
               = (case registration_context L wd fs entrypoint (fpath, obj_name) of
                    Inl e \<Rightarrow> (Inl e, fs)
                  | Inr ctx \<Rightarrow> quality_control L fs force ctx)"
    by auto
qed

theorem register_flow_entrypoint_colon_witness:
  "register_flow sample_flow_lib [''proj''] sample_fs ''flows.py'' False
     = (Inl (Error ValueError
              [Txt (''Your flow entrypoint must include the name of the function that is''
                    @ '' the entrypoint to your flow.'' @ [CHR 0x0A] @ ''Try ''),
               Txt ''flows.py'', Txt '':<flow_name>'']), sample_fs)
   \<and> rsplit1 CHR '':'' ''a:b.py:f'' = [''a:b.py'', ''f'']"
  using register_flow_entrypoint_colon [where entrypoint = "''flows.py''"
      and L = sample_flow_lib and wd = "[''proj'']" and fs = sample_fs and force = False]
    register_flow_entrypoint_colon [where entrypoint = "''a:b.py:f''"
      and L = sample_flow_lib and wd = "[''proj'']" and fs = sample_fs and force = False]
  by (auto simp: rsplit1_def)

subsection \<open>Conflicting registrations\<close>

lemma dict_get_dict_set:
  "dict_get (dict_set d k v) = (dict_get d)(k \<mapsto> v)"
  by (induction d) (auto simp: dict_get_def fun_eq_iff)

lemma write_text_ok:
  "stat fs p \<noteq> Some Dir \<Longrightarrow> is_dir fs (parent p) \<Longrightarrow>
   write_text fs p s = (Inr (), fs(p \<mapsto> File s))"
  by (auto simp: write_text_def split: option.splits node.splits)

lemma read_flows_not_dir:
  "read_flows L fs p = Inr loaded \<Longrightarrow> stat fs p \<noteq> Some Dir"
  by (auto simp: read_flows_def read_text_def exists_path_def split: if_splits)

lemma registration_context_file:
  assumes "registration_context L wd fs entrypoint split = Inr (flow, ep, flows_file, loaded)"
  shows "stat fs flows_file \<noteq> Some Dir \<and> is_dir fs (parent flows_file)"
proof -
  from assms obtain pd where pd: "find_prefect_directory fs wd None = Some pd"
    and ff: "flows_file = joinpath pd ''flows.json''"
    and rf: "read_flows L fs flows_file = Inr loaded"
    by (auto simp: registration_context_def Let_def split: sum.splits option.splits)
  from pd have "is_dir fs pd"
    by (simp add: find_prefect_directory_def find_up_Some_is_dir)
  with ff rf show ?thesis by (simp add: read_flows_not_dir parent_def joinpath_def)
qed

lemma store_flow_ok:
  "stat fs flows_file \<noteq> Some Dir \<Longrightarrow> is_dir fs (parent flows_file) \<Longrightarrow>
   store_flow L fs flows_file flows flow ep
     = (Inr flow, fs(flows_file \<mapsto> File (json_dump L (JObj (dict_set flows (name flow) (JStr ep))))))"
  by (simp add: store_flow_def write_text_ok)

text \<open>
  C3. Take an invocation of \<open>register_flow\<close> that gets as far as the registry: the
  entrypoint splits, the flow loads, the marker directory is found and the registry is
  read as the dict \<open>flows\<close>; \<open>ep\<close> is the entrypoint rewritten relative to the project
  root. If the flow's name maps to something other than \<open>ep\<close> and \<open>force\<close> is not set,
  the call fails with the conflict \<open>ValueError\<close> and the filesystem, the registry file
  with it, is what it was. If \<open>force\<close> is set, or the name maps to \<open>ep\<close> already, the
  call returns the flow and the registry file holds the dump of the dict in which the
  name maps to \<open>ep\<close> and every other name to what it mapped to before.
\<close>

theorem register_flow_conflict:
  assumes "unpack_entrypoint entrypoint = Inr split"
    and "registration_context L wd fs entrypoint split = Inr (flow, ep, flows_file, JObj flows)"
  shows "(\<forall>old. dict_get flows (name flow) = Some old \<and> old \<noteq> JStr ep \<and> \<not> force \<longrightarrow>
            register_flow L wd fs entrypoint force
              = (Inl (Error ValueError (conflict_msg (name flow) old)), fs))
       \<and> (force \<or> dict_get flows (name flow) = Some (JStr ep) \<longrightarrow>
            register_flow L wd fs entrypoint force
              = (Inr flow,
                 fs(flows_file \<mapsto>
                      File (json_dump L (JObj (dict_set flows (name flow) (JStr ep))))))
            \<and> dict_get (dict_set flows (name flow) (JStr ep))
                = (dict_get flows)(name flow \<mapsto> JStr ep))"
proof -
  have rf: "register_flow L wd fs entrypoint force
              = quality_control L fs force (flow, ep, flows_file, JObj flows)"
    using assms by (simp add: register_flow_def)
  note ok = store_flow_ok [OF registration_context_file [OF assms(2), THEN conjunct1]
      registration_context_file [OF assms(2), THEN conjunct2]]
  show ?thesis
    unfolding rf by (auto simp: quality_control_def ok dict_get_dict_set split: option.splits)
qed

theorem register_flow_conflict_witness:
  "register_flow sample_flow_lib [''proj''] sample_fs ''other.py:my_flow'' False
     = (Inl (Error ValueError (conflict_msg ''my-flow'' (JStr ''flows.py:my_flow''))), sample_fs)
   \<and> register_flow sample_flow_lib [''proj''] sample_fs ''other.py:my_flow'' True
     = (Inr (Flow ''my-flow''),
        sample_fs([''proj'', ''.prefect'', ''flows.json''] \<mapsto> File ''dumped''))"
proof -
  have u: "unpack_entrypoint ''other.py:my_flow'' = Inr (''other.py'', ''my_flow'')"
    by (simp add: unpack_entrypoint_def rsplit1_def)
  have r: "registration_context sample_flow_lib [''proj''] sample_fs ''other.py:my_flow''
             (''other.py'', ''my_flow'')
      = Inr (Flow ''my-flow'', ''other.py:my_flow'', [''proj'', ''.prefect'', ''flows.json''],
             JObj [(''my-flow'', JStr ''flows.py:my_flow'')])"
    by (simp add: registration_context_def sample_flow_lib_def sample_fs_def
        find_prefect_directory_def find_up.simps parent_def joinpath_def is_dir_def stat_def
        Path_def anchor_of_def absolute_def relative_to_def str_relative_def read_flows_def
        read_text_def exists_path_def)
  from register_flow_conflict [OF u r, of False] register_flow_conflict [OF u r, of True]
  show ?thesis by (simp add: dict_get_def sample_flow_lib_def)
qed

subsection \<open>Recipe selection\<close>

lemma git_context_git_based:
  assumes "git_context env = Inr (remote_url, branch)"
  shows "is_git_based remote_url
           \<longleftrightarrow> (\<exists>s. git_config_get_remote_origin_url env = Output s \<and> strip s \<noteq> [])"
  using assms
  by (auto simp: git_context_def get_git_remote_origin_url_def is_git_based_def
      split: proc_outcome.splits sum.splits if_splits)

lemma git_context_not_launched:
  "git_config_get_remote_origin_url env = Not_launched e \<Longrightarrow> git_context env = Inl e"
  by (simp add: git_context_def get_git_remote_origin_url_def)

text \<open>
  A directory made a repository by \<open>git init\<close> has no remote named \<open>origin\<close>: the query
  for the remote URL exits with status 1, the helper returns \<open>None\<close>, \<open>is_git_based\<close>
  stays false, and the recipe selected is \<open>local\<close>, or \<open>docker\<close> beside a Dockerfile,
  not \<open>git\<close> or \<open>docker-git\<close>.
\<close>

theorem initialize_project_git_repository_without_origin:
  "git_repository sample_no_origin_env
   \<and> \<not> has_dockerfile sample_no_origin_env sample_fs
   \<and> get_git_remote_origin_url sample_no_origin_env = Inr None
   \<and> selected_recipe sample_no_origin_env sample_fs None = Inr ''local''
   \<and> load_configuration sample_project_lib sample_no_origin_env sample_fs None None
       = configure_project_by_recipe sample_project_lib ''local''
           (merged_kwargs sample_no_origin_env sample_fs None None None None)
   \<and> has_dockerfile sample_no_origin_env sample_docker_fs
   \<and> selected_recipe sample_no_origin_env sample_docker_fs None = Inr ''docker''"
  by (simp add: selected_recipe_def load_configuration_def git_context_def
      get_git_remote_origin_url_def is_git_based_def select_recipe_def has_dockerfile_def
      merged_kwargs_def inferred_kwargs_def sample_no_origin_env_def sample_fs_def
      sample_docker_fs_def exists_path_def stat_def joinpath_def)

text \<open>
  C2, amended. Take a call of \<open>initialize_project\<close> in which the git helpers return:
  \<open>remote_url\<close> is what the query for the remote origin URL gave and \<open>is_git_based\<close>
  says that git printed a non-empty URL. With no recipe argument the recipe selected
  is \<open>docker-git\<close> when git printed a URL and something named \<open>Dockerfile\<close> exists in
  the working directory, \<open>git\<close> when git printed a URL and there is no Dockerfile,
  \<open>docker\<close> when there is a Dockerfile and git printed no URL, and \<open>local\<close> when
  neither holds. A recipe argument is used as it is. The selected name is the one
  handed to \<open>configure_project_by_recipe\<close>.
\<close>

theorem initialize_project_recipe_selection:
  assumes "git_context env = Inr (remote_url, branch)"
  shows "(is_git_based remote_url
            \<longleftrightarrow> (\<exists>s. git_config_get_remote_origin_url env = Output s \<and> strip s \<noteq> []))
   \<and> (is_git_based remote_url \<and> has_dockerfile env fs \<longrightarrow>
        selected_recipe env fs None = Inr ''docker-git'')
   \<and> (is_git_based remote_url \<and> \<not> has_dockerfile env fs \<longrightarrow>
        selected_recipe env fs None = Inr ''git'')
   \<and> (\<not> is_git_based remote_url \<and> has_dockerfile env fs \<longrightarrow>
        selected_recipe env fs None = Inr ''docker'')
   \<and> (\<not> is_git_based remote_url \<and> \<not> has_dockerfile env fs \<longrightarrow>
        selected_recipe env fs None = Inr ''local'')
   \<and> selected_recipe env fs (Some r) = Inr r
   \<and> selected_recipe env fs recipe
       = Inr (select_recipe (is_git_based remote_url) (has_dockerfile env fs) recipe)
   \<and> load_configuration A env fs recipe inputs
       = (if merged_kwargs env fs recipe remote_url branch inputs ''recipe'' \<noteq> None
          then Inl (Error TypeError [])
          else configure_project_by_recipe A
                 (select_recipe (is_git_based remote_url) (has_dockerfile env fs) recipe)
                 (merged_kwargs env fs recipe remote_url branch inputs))"
proof -
  note based = git_context_git_based [OF assms]
  have sel: "selected_recipe env fs rc
      = Inr (select_recipe (is_git_based remote_url) (has_dockerfile env fs) rc)" for rc
    using assms by (simp add: selected_recipe_def)
  have load: "load_configuration A env fs recipe inputs
       = (if merged_kwargs env fs recipe remote_url branch inputs ''recipe'' \<noteq> None
          then Inl (Error TypeError [])
          else configure_project_by_recipe A
                 (select_recipe (is_git_based remote_url) (has_dockerfile env fs) recipe)
                 (merged_kwargs env fs recipe remote_url branch inputs))"
    using assms by (simp add: load_configuration_def)
  have "selected_recipe env fs (Some r) = Inr r"
    by (simp add: sel select_recipe_def)
  moreover have "is_git_based remote_url \<and> has_dockerfile env fs \<longrightarrow>
        selected_recipe env fs None = Inr ''docker-git''"
    by (simp add: sel select_recipe_def)
  moreover have "is_git_based remote_url \<and> \<not> has_dockerfile env fs \<longrightarrow>
        selected_recipe env fs None = Inr ''git''"
    by (simp add: sel select_recipe_def)
  moreover have "\<not> is_git_based remote_url \<and> has_dockerfile env fs \<longrightarrow>
        selected_recipe env fs None = Inr ''docker''"
    by (simp add: sel select_recipe_def)
  moreover have "\<not> is_git_based remote_url \<and> \<not> has_dockerfile env fs \<longrightarrow>
        selected_recipe env fs None = Inr ''local''"
    by (simp add: sel select_recipe_def)
  ultimately show ?thesis using based sel [of recipe] load by blast
qed

theorem initialize_project_recipe_selection_witness:
  "selected_recipe sample_git_env sample_docker_fs None = Inr ''docker-git''
   \<and> selected_recipe sample_git_env sample_fs None = Inr ''git''
   \<and> selected_recipe sample_env sample_docker_fs None = Inr ''docker''
   \<and> selected_recipe sample_env sample_fs None = Inr ''local''
   \<and> selected_recipe sample_env sample_docker_fs (Some ''git'') = Inr ''git''"
proof -
  have g: "git_context sample_git_env = Inr (Some ''https://example.org/repo.git'', Some ''dev'')"
    by (simp add: git_context_def get_git_remote_origin_url_def get_git_branch_def
        is_git_based_def sample_git_env_def strip_def is_space_def)
  have n: "git_context sample_env = Inr (None, None)"
    by (simp add: git_context_def get_git_remote_origin_url_def is_git_based_def sample_env_def)
  from initialize_project_recipe_selection [OF g, where fs = sample_docker_fs and r = "''git''"
      and recipe = None and A = sample_project_lib and inputs = None]
    initialize_project_recipe_selection [OF g, where fs = sample_fs and r = "''git''"
      and recipe = None and A = sample_project_lib and inputs = None]
    initialize_project_recipe_selection [OF n, where fs = sample_docker_fs and r = "''git''"
      and recipe = None and A = sample_project_lib and inputs = None]
    initialize_project_recipe_selection [OF n, where fs = sample_fs and r = "''git''"
      and recipe = None and A = sample_project_lib and inputs = None]
  show ?thesis
    by (simp add: is_git_based_def has_dockerfile_def sample_git_env_def sample_env_def
        sample_docker_fs_def sample_fs_def exists_path_def stat_def joinpath_def)
qed

subsection \<open>Unknown recipes\<close>

text \<open>
  C6. \<open>configure_project_by_recipe\<close> fails exactly when the recipe has no asset, and
  then with the \<open>ValueError\<close> that names the recipe; when the asset exists it returns
  the parsed asset with the formatting context substituted, removal mode off.
\<close>

theorem configure_project_by_recipe_unknown:
  "((\<exists>e. configure_project_by_recipe A recipe formatting_kwargs = Inl e)
      \<longleftrightarrow> recipe_assets A recipe = None)
   \<and> (recipe_assets A recipe = None \<longrightarrow>
        configure_project_by_recipe A recipe formatting_kwargs
          = Inl (Error ValueError [Txt ''Unknown recipe '', Repr recipe, Txt '' provided.'']))
   \<and> (\<forall>config. recipe_assets A recipe = Some config \<longrightarrow>
        configure_project_by_recipe A recipe formatting_kwargs
          = Inr (apply_values config formatting_kwargs False))"
  by (auto simp: configure_project_by_recipe_def split: option.splits)

theorem configure_project_by_recipe_unknown_witness:
  "configure_project_by_recipe sample_project_lib ''nope'' Map.empty
     = Inl (Error ValueError [Txt ''Unknown recipe '', Repr ''nope'', Txt '' provided.''])
   \<and> configure_project_by_recipe sample_project_lib ''local'' Map.empty
     = Inr (apply_values sample_recipe Map.empty False)"
  using configure_project_by_recipe_unknown [where A = sample_project_lib and recipe = "''nope''"
      and formatting_kwargs = Map.empty]
    configure_project_by_recipe_unknown [where A = sample_project_lib and recipe = "''local''"
      and formatting_kwargs = Map.empty]
  by (simp add: sample_project_lib_def)

subsection \<open>Placeholders without a value\<close>

lemma child_apply_values:
  "child (apply_values y values r) s = map_option (\<lambda>x. apply_values x values r) (child y s)"
proof (cases y)
  case (YMap kvs)
  have "map_of (map (map_prod id f) kvs) k = map_option f (map_of kvs k)" for f :: "yaml \<Rightarrow> yaml" and k
    by (induction kvs) auto
  with YMap show ?thesis by (cases s) simp_all
qed (auto split: step.splits)

lemma yaml_at_apply_values:
  "yaml_at p (apply_values y values r) = map_option (\<lambda>x. apply_values x values r) (yaml_at p y)"
proof (induction p arbitrary: y)
  case Nil
  show ?case by simp
next
  case (Cons s p)
  show ?case
    by (cases "child y s") (simp_all add: child_apply_values Cons.IH)
qed

lemma substitute_unmatched:
  "values n = None \<Longrightarrow> substitute values False (Placeholder n) = Placeholder n"
  by (simp add: substitute_def)

lemma substitute_all_unmatched:
  assumes "\<And>n. Placeholder n \<in> set segs \<Longrightarrow> values n = None"
  shows "map (substitute values False) segs = segs"
proof -
  have "substitute values False g = g" if "g \<in> set segs" for g
  proof (cases g)
    case (Lit s)
    then show ?thesis by (simp add: substitute_def)
  next
    case (Placeholder n)
    with that assms have "values n = None" by blast
    with Placeholder show ?thesis by (simp add: substitute_def)
  qed
  then show ?thesis by (simp add: map_idI)
qed

text \<open>
  C8. Take a string value anywhere in a recipe's configuration, at position \<open>p\<close>.
  \<open>configure_project_by_recipe\<close> returns a configuration with a string at the same
  position, in which every placeholder token that the formatting context does not name
  is still present, in its place; when the context names none of the string's
  placeholders the string is returned unchanged. The substitution itself is the
  spec's description of \<open>apply_values\<close>; that the removal mode is off is the source's
  call.
\<close>

theorem configure_project_by_recipe_keeps_unmatched:
  assumes "recipe_assets A recipe = Some config"
    and "yaml_at p config = Some (YStr segs)"
  shows "\<exists>out segs'.
           configure_project_by_recipe A recipe formatting_kwargs = Inr out
           \<and> yaml_at p out = Some (YStr segs')
           \<and> length segs' = length segs
           \<and> (\<forall>i n. i < length segs \<and> segs ! i = Placeholder n \<and> formatting_kwargs n = None
                 \<longrightarrow> segs' ! i = Placeholder n)
           \<and> ((\<forall>n. Placeholder n \<in> set segs \<longrightarrow> formatting_kwargs n = None) \<longrightarrow> segs' = segs)"
proof -
  let ?out = "apply_values config formatting_kwargs False"
  let ?segs' = "map (substitute formatting_kwargs False) segs"
  have "configure_project_by_recipe A recipe formatting_kwargs = Inr ?out"
    using assms(1) by (simp add: configure_project_by_recipe_def)
  moreover have "yaml_at p ?out = Some (YStr ?segs')"
    using assms(2) by (simp add: yaml_at_apply_values)
  moreover have "\<forall>i n. i < length segs \<and> segs ! i = Placeholder n \<and> formatting_kwargs n = None
                 \<longrightarrow> ?segs' ! i = Placeholder n"
    by (simp add: substitute_unmatched)
  moreover have "(\<forall>n. Placeholder n \<in> set segs \<longrightarrow> formatting_kwargs n = None) \<longrightarrow> ?segs' = segs"
    using substitute_all_unmatched [of segs formatting_kwargs] by blast
  ultimately show ?thesis by simp
qed

theorem configure_project_by_recipe_keeps_unmatched_witness:
  "\<exists>out. configure_project_by_recipe sample_project_lib ''local'' [''directory'' \<mapsto> ''/proj'']
            = Inr out
     \<and> yaml_at [Key ''pull'', Index 0, Key ''directory''] out
         = Some (YStr [Lit ''cd '', Lit ''/proj'', Lit ''/'', Placeholder ''image''])
     \<and> yaml_at [Key ''name''] out = Some (YStr [Placeholder ''name''])"
proof -
  have a: "recipe_assets sample_project_lib ''local'' = Some sample_recipe"
    by (simp add: sample_project_lib_def)
  have p1: "yaml_at [Key ''pull'', Index 0, Key ''directory''] sample_recipe
      = Some (YStr [Lit ''cd '', Placeholder ''directory'', Lit ''/'', Placeholder ''image''])"
    by (simp add: sample_recipe_def)
  have p2: "yaml_at [Key ''name''] sample_recipe = Some (YStr [Placeholder ''name''])"
    by (simp add: sample_recipe_def)
  from configure_project_by_recipe_keeps_unmatched [OF a p1, of "[''directory'' \<mapsto> ''/proj'']"]
    configure_project_by_recipe_keeps_unmatched [OF a p2, of "[''directory'' \<mapsto> ''/proj'']"]
  show ?thesis
    by (simp add: configure_project_by_recipe_def sample_project_lib_def sample_recipe_def
        substitute_def)
qed

subsection \<open>The dockerfile entry of the formatting context\<close>

lemma str_contains_iff:
  "str_contains sub s \<longleftrightarrow> (\<exists>pre suf. s = pre @ sub @ suf)"
proof (induction s)
  case Nil
  then show ?case by auto
next
  case (Cons c cs)
  show ?case
  proof
    assume "str_contains sub (c # cs)"
    then consider "prefix sub (c # cs)" | "str_contains sub cs" by auto
    then show "\<exists>pre suf. c # cs = pre @ sub @ suf"
    proof cases
      case 1
      then obtain suf where "c # cs = sub @ suf" by (auto simp: prefix_def)
      then have "c # cs = [] @ sub @ suf" by simp
      then show ?thesis by blast
    next
      case 2
      with Cons.IH obtain pre suf where "cs = pre @ sub @ suf" by blast
      then have "c # cs = (c # pre) @ sub @ suf" by simp
      then show ?thesis by blast
    qed
  next
    assume "\<exists>pre suf. c # cs = pre @ sub @ suf"
    then obtain pre suf where eq: "c # cs = pre @ sub @ suf" by blast
    show "str_contains sub (c # cs)"
    proof (cases pre)
      case Nil
      with eq have "prefix sub (c # cs)" by (simp add: prefix_def)
      then show ?thesis by simp
    next
      case (Cons d pre')
      with eq have "cs = pre' @ sub @ suf" by simp
      with Cons.IH have "str_contains sub cs" by blast
      then show ?thesis by simp
    qed
  qed
qed

text \<open>
  C10. In the formatting context that \<open>initialize_project\<close> infers (lines 199 to
  218), whatever the git helpers returned, the entry \<open>dockerfile\<close> is \<open>Dockerfile\<close>
  when a Dockerfile is present, \<open>auto\<close> when none is present and the caller's recipe
  name contains \<open>docker\<close>, and absent otherwise. The caller's inputs are merged in
  afterwards; when they have no \<open>dockerfile\<close> key the entry reaches the substitution
  as inferred.
\<close>

theorem initialize_project_dockerfile_entry:
  "inferred_kwargs env fs recipe remote_url branch ''dockerfile''
     = (if has_dockerfile env fs then Some ''Dockerfile''
        else if \<exists>r pre suf. recipe = Some r \<and> r = pre @ ''docker'' @ suf then Some ''auto''
        else None)
   \<and> ((case inputs of None \<Rightarrow> True | Some m \<Rightarrow> m ''dockerfile'' = None) \<longrightarrow>
        merged_kwargs env fs recipe remote_url branch inputs ''dockerfile''
          = inferred_kwargs env fs recipe remote_url branch ''dockerfile'')"
  by (auto simp: inferred_kwargs_def merged_kwargs_def Let_def str_contains_iff map_add_def
      split: option.splits)

theorem initialize_project_dockerfile_entry_witness:
  "inferred_kwargs sample_env sample_fs (Some ''my-docker-recipe'') None None ''dockerfile''
     = Some ''auto''
   \<and> inferred_kwargs sample_env sample_docker_fs (Some ''local'') None None ''dockerfile''
     = Some ''Dockerfile''
   \<and> inferred_kwargs sample_env sample_fs (Some ''local'') None None ''dockerfile'' = None
   \<and> inferred_kwargs sample_env sample_fs None None None ''dockerfile'' = None
   \<and> merged_kwargs sample_env sample_fs (Some ''my-docker-recipe'') None None
        (Some [''name'' \<mapsto> ''x'']) ''dockerfile'' = Some ''auto''"
  using initialize_project_dockerfile_entry [where env = sample_env and fs = sample_fs
      and recipe = "Some ''my-docker-recipe''" and inputs = "Some [''name'' \<mapsto> ''x'']"
      and remote_url = None and branch = None]
  by (simp add: inferred_kwargs_def has_dockerfile_def exists_path_def stat_def joinpath_def
      sample_env_def sample_fs_def sample_docker_fs_def is_git_based_def prefix_def)

subsection \<open>Initializing twice\<close>

lemma inferred_kwargs_no_recipe_key:
  "inferred_kwargs env fs recipe remote_url branch ''recipe'' = None"
  by (simp add: inferred_kwargs_def Let_def split: option.splits)

lemma create_default_ignore_file_exists:
  "exists_path fs (joinpath dir ''.prefectignore'') \<Longrightarrow>
   create_default_ignore_file A fs dir = (Inr False, fs)"
  by (simp add: create_default_ignore_file_def)

lemma create_default_prefect_yaml_exists:
  "exists_path fs (joinpath dir ''prefect.yaml'') \<Longrightarrow>
   create_default_prefect_yaml A fs dir project_name contents = (Inr False, fs)"
  by (simp add: create_default_prefect_yaml_def)

lemma set_prefect_hidden_dir_exists:
  "exists_path fs (joinpath wd ''.prefect'') \<Longrightarrow>
   set_prefect_hidden_dir fs wd None = (Inr False, fs)"
  by (simp add: set_prefect_hidden_dir_def)

lemma initialize_project_loaded:
  assumes "exists_path fs (joinpath (cwd env) ''.prefectignore'')"
    and "exists_path fs (joinpath (cwd env) ''prefect.yaml'')"
    and "exists_path fs (joinpath (cwd env) ''.prefect'')"
    and "load_configuration A env fs recipe inputs = Inr c"
  shows "initialize_project A env fs project_name recipe inputs = (Inr [], fs)"
  using assms
  by (simp add: initialize_project_def create_default_ignore_file_exists
      create_default_prefect_yaml_exists set_prefect_hidden_dir_exists)

lemma initialize_project_not_loaded:
  "load_configuration A env fs recipe inputs = Inl e \<Longrightarrow>
   initialize_project A env fs project_name recipe inputs = (Inl e, fs)"
  by (simp add: initialize_project_def)

text \<open>
  An exception that leaves a git helper, such as \<open>FileNotFoundError\<close> when git cannot
  be launched, leaves \<open>initialize_project\<close> at line 204, whatever the directory holds.
\<close>

lemma initialize_project_git_not_launched:
  "git_config_get_remote_origin_url env = Not_launched e \<Longrightarrow>
   initialize_project A env fs project_name recipe inputs = (Inl e, fs)"
  by (simp add: initialize_project_not_loaded load_configuration_def git_context_not_launched)

text \<open>
  The recipe is loaded before any file is looked at, so an initialized directory does
  not keep a call with an unknown recipe name from raising.
\<close>

theorem initialize_project_rerun_unknown_recipe:
  "exists_path sample_initialized_fs (joinpath (cwd sample_env) ''.prefectignore'')
   \<and> exists_path sample_initialized_fs (joinpath (cwd sample_env) ''prefect.yaml'')
   \<and> is_dir sample_initialized_fs (joinpath (cwd sample_env) ''.prefect'')
   \<and> initialize_project sample_project_lib sample_env sample_initialized_fs None (Some ''nope'') None
       = (Inl (Error ValueError [Txt ''Unknown recipe '', Repr ''nope'', Txt '' provided.'']),
          sample_initialized_fs)"
  by (simp add: initialize_project_def load_configuration_def merged_kwargs_def
      inferred_kwargs_no_recipe_key select_recipe_def configure_project_by_recipe_def
      git_context_def get_git_remote_origin_url_def is_git_based_def
      sample_project_lib_def sample_env_def sample_initialized_fs_def sample_fs_def
      exists_path_def is_dir_def stat_def joinpath_def)

text \<open>
  C4, amended. In a directory where the ignore-file, \<open>prefect.yaml\<close> and the marker
  directory exist, \<open>initialize_project\<close> never changes the filesystem. It returns the
  empty list whenever lines 199 to 232 run through, and they do when both git helpers
  return, the selected recipe has an asset and the inputs have no key \<open>recipe\<close>; when
  one of these lines raises, the call raises that error. The ignore-file step is the
  spec's description of \<open>create_default_ignore_file\<close>.
\<close>

theorem initialize_project_rerun:
  assumes "exists_path fs (joinpath (cwd env) ''.prefectignore'')"
    and "exists_path fs (joinpath (cwd env) ''prefect.yaml'')"
    and "is_dir fs (joinpath (cwd env) ''.prefect'')"
  shows "snd (initialize_project A env fs project_name recipe inputs) = fs
     \<and> (\<forall>c. load_configuration A env fs recipe inputs = Inr c \<longrightarrow>
           initialize_project A env fs project_name recipe inputs = (Inr [], fs))
     \<and> (\<forall>e. load_configuration A env fs recipe inputs = Inl e \<longrightarrow>
           initialize_project A env fs project_name recipe inputs = (Inl e, fs))
     \<and> (\<forall>remote_url branch.
           git_context env = Inr (remote_url, branch)
           \<and> recipe_assets A (select_recipe (is_git_based remote_url) (has_dockerfile env fs) recipe)
               \<noteq> None
           \<and> (case inputs of None \<Rightarrow> True | Some m \<Rightarrow> m ''recipe'' = None) \<longrightarrow>
           initialize_project A env fs project_name recipe inputs = (Inr [], fs))"
proof -
  from assms(3) have marker: "exists_path fs (joinpath (cwd env) ''.prefect'')"
    by (simp add: is_dir_def exists_path_def)
  note loaded = initialize_project_loaded [OF assms(1) assms(2) marker]
  have unchanged: "snd (initialize_project A env fs project_name recipe inputs) = fs"
    by (cases "load_configuration A env fs recipe inputs")
      (simp_all add: loaded initialize_project_not_loaded)
  have "initialize_project A env fs project_name recipe inputs = (Inr [], fs)"
    if git: "git_context env = Inr (remote_url, branch)"
      and asset: "recipe_assets A
          (select_recipe (is_git_based remote_url) (has_dockerfile env fs) recipe) \<noteq> None"
      and key: "case inputs of None \<Rightarrow> True | Some m \<Rightarrow> m ''recipe'' = None"
    for remote_url branch
  proof -
    from key have "merged_kwargs env fs recipe remote_url branch inputs ''recipe'' = None"
      by (simp add: merged_kwargs_def map_add_def inferred_kwargs_no_recipe_key
          split: option.splits)
    with git asset obtain c where "load_configuration A env fs recipe inputs = Inr c"
      by (auto simp: load_configuration_def configure_project_by_recipe_def)
    then show ?thesis by (rule loaded)
  qed
  with unchanged show ?thesis by (simp add: loaded initialize_project_not_loaded)
qed

theorem initialize_project_rerun_witness:
  "initialize_project sample_project_lib sample_env sample_initialized_fs None None None
     = (Inr [], sample_initialized_fs)"
proof -
  have h: "exists_path sample_initialized_fs (joinpath (cwd sample_env) ''.prefectignore'')"
    "exists_path sample_initialized_fs (joinpath (cwd sample_env) ''prefect.yaml'')"
    "is_dir sample_initialized_fs (joinpath (cwd sample_env) ''.prefect'')"
    by (simp_all add: sample_env_def sample_initialized_fs_def sample_fs_def
        exists_path_def is_dir_def stat_def joinpath_def)
  have n: "git_context sample_env = Inr (None, None)"
    by (simp add: git_context_def get_git_remote_origin_url_def is_git_based_def sample_env_def)
  from initialize_project_rerun [OF h, of sample_project_lib None None None] n
  show ?thesis
    by (simp add: select_recipe_def is_git_based_def has_dockerfile_def sample_env_def
        sample_initialized_fs_def sample_fs_def sample_project_lib_def exists_path_def
        stat_def joinpath_def)
qed

subsection \<open>Migrating an empty legacy file\<close>

lemma copy_deployments_cases:
  assumes "fs (joinpath (cwd env) ''deployment.yaml'') = Some (File raw)"
    and "fs (joinpath (cwd env) ''prefect.yaml'') = Some (File old)"
    and "yaml_safe_load A raw = Some parsed"
  shows "copy_deployments_into_prefect_file A env fs =
     (case parsed of
        YMap kvs \<Rightarrow>
          (Inr (), fs(joinpath (cwd env) ''prefect.yaml'' \<mapsto> File (old @ [CHR 0x0A] @
             (if kvs = [] then yaml_dump A (YMap [(''deployments'', YList [])])
              else if \<not> (case dict_get kvs ''deployments'' of None \<Rightarrow> False | Some d \<Rightarrow> truthy d)
              then yaml_dump A (YMap [(''deployments'', YList [parsed])])
              else raw))))
      | _ \<Rightarrow> (Inl (Error AttributeError []), fs))"
  using assms
  by (cases parsed)
    (auto simp: copy_deployments_into_prefect_file_def Let_def exists_path_def stat_def
      joinpath_def read_text_def append_text_def split: option.splits)

text \<open>
  C7. The migration is claimed to append an empty \<open>deployments\<close> list when the legacy
  file parses as empty, and the raw text whenever the legacy file has a
  \<open>deployments\<close> key. On an empty \<open>deployment.yaml\<close>, which \<open>yaml.safe_load\<close> parses to
  \<open>None\<close>, the call raises \<open>AttributeError\<close> at \<open>.get\<close> and appends nothing. On
  \<open>deployments: []\<close> the key is there but its value is false, and what is appended is
  the dump of a one-element list wrapping the whole content, not the raw text.
\<close>

theorem copy_deployments_empty_legacy_file:
  "yaml_safe_load sample_project_lib [] = Some YNull
   \<and> copy_deployments_into_prefect_file sample_project_lib sample_env (sample_legacy_fs [])
       = (Inl (Error AttributeError []), sample_legacy_fs [])
   \<and> yaml_safe_load sample_project_lib ''deployments: []''
       = Some (YMap [(''deployments'', YList [])])
   \<and> copy_deployments_into_prefect_file sample_project_lib sample_env
         (sample_legacy_fs ''deployments: []'')
       = (Inr (), (sample_legacy_fs ''deployments: []'')
            ([''proj'', ''prefect.yaml''] \<mapsto> File (''name: proj'' @ [CHR 0x0A] @
               yaml_dump sample_project_lib
                 (YMap [(''deployments'', YList [YMap [(''deployments'', YList [])]])]))))"
  by (simp add: copy_deployments_into_prefect_file_def Let_def exists_path_def stat_def
      joinpath_def read_text_def append_text_def sample_project_lib_def sample_env_def
      sample_legacy_fs_def sample_fs_def dict_get_def)

theorem copy_deployments_empty_legacy_file_witness:
  "fst (copy_deployments_into_prefect_file sample_project_lib sample_env (sample_legacy_fs []))
     = Inl (Error AttributeError [])
   \<and> snd (copy_deployments_into_prefect_file sample_project_lib sample_env (sample_legacy_fs []))
         [''proj'', ''prefect.yaml'']
     = Some (File ''name: proj'')"
  using copy_deployments_empty_legacy_file
  by (simp add: sample_legacy_fs_def)

end
